theory Spec2Isabelle
  imports Complex_Main "HOL-Library.Word" "HOL-Library.Log_Nat"
begin

section \<open>Bitcoin Knots spam filter checker: check_knots_spam.py\<close>

text \<open>
  The program decodes one transaction from hex and runs \<open>check_standard_tx\<close> on it: an
  ordered list of thirteen relay-policy checks, each of which prints a message and
  returns \<open>False\<close> when it fails. The model keeps what the Python does besides returning
  a value: every \<open>print\<close> and every RPC request is an event, in program order, and every
  exception the code can raise is an \<open>Inl\<close> result.
\<close>

subsection \<open>Bytes, scripts and Python errors\<close>

type_synonym byte = "8 word"

datatype py_error = IndexError | ZeroDivisionError | OverflowError | TypeError

text \<open>The opcodes of \<open>bitcoin.core.script\<close> that the source names, with their protocol values.\<close>

definition OP_DUP :: byte where "OP_DUP = 0x76"
definition OP_HASH160 :: byte where "OP_HASH160 = 0xa9"
definition OP_EQUAL :: byte where "OP_EQUAL = 0x87"
definition OP_EQUALVERIFY :: byte where "OP_EQUALVERIFY = 0x88"
definition OP_CHECKSIG :: byte where "OP_CHECKSIG = 0xac"
definition OP_RETURN :: byte where "OP_RETURN = 0x6a"

text \<open>
  \<open>script[i]\<close>: a \<open>CScript\<close> is a \<open>bytes\<close> object, indexed by byte; an index past the
  end raises IndexError. (The source uses no negative index.)
\<close>

definition getitem :: "byte list \<Rightarrow> nat \<Rightarrow> py_error + byte" where
  "getitem script i = (if i < length script then Inr (script ! i) else Inl IndexError)"

text \<open>\<open>script[i] == op\<close>.\<close>

definition item_eq :: "byte list \<Rightarrow> nat \<Rightarrow> byte \<Rightarrow> py_error + bool" where
  "item_eq script i op = (case getitem script i of Inl e \<Rightarrow> Inl e | Inr b \<Rightarrow> Inr (b = op))"

text \<open>Python's \<open>and\<close>: the right operand is evaluated only when the left one is true.\<close>

definition py_and :: "py_error + bool \<Rightarrow> py_error + bool \<Rightarrow> py_error + bool" where
  "py_and a b = (case a of Inl e \<Rightarrow> Inl e | Inr False \<Rightarrow> Inr False | Inr True \<Rightarrow> b)"

subsection \<open>is_standard_script\<close>

text \<open>The conditions of the three \<open>if\<close> statements, in the order of the source.\<close>

definition p2pkh_condition :: "byte list \<Rightarrow> py_error + bool" where
  "p2pkh_condition script =
     py_and (Inr (length script = 25))
    (py_and (item_eq script 0 OP_DUP)
    (py_and (item_eq script 1 OP_HASH160)
    (py_and (item_eq script 2 0x14)
    (py_and (item_eq script 23 OP_EQUALVERIFY)
            (item_eq script 24 OP_CHECKSIG)))))"

definition p2sh_condition :: "byte list \<Rightarrow> py_error + bool" where
  "p2sh_condition script =
     py_and (Inr (length script = 23))
    (py_and (item_eq script 0 OP_HASH160)
    (py_and (item_eq script 1 0x14)
            (item_eq script 22 OP_EQUALVERIFY)))"

definition op_return_condition :: "byte list \<Rightarrow> py_error + bool" where
  "op_return_condition script =
     py_and (Inr (length script > 0)) (item_eq script 0 OP_RETURN)"

definition is_standard_script :: "byte list \<Rightarrow> py_error + bool" where
  "is_standard_script script =
     (case p2pkh_condition script of
        Inl e \<Rightarrow> Inl e
      | Inr True \<Rightarrow> Inr True
      | Inr False \<Rightarrow>
         (case p2sh_condition script of
            Inl e \<Rightarrow> Inl e
          | Inr True \<Rightarrow> Inr True
          | Inr False \<Rightarrow>
             (case op_return_condition script of
                Inl e \<Rightarrow> Inl e
              | Inr True \<Rightarrow> Inr True
              | Inr False \<Rightarrow> Inr False)))"

text \<open>
  The same function with each \<open>return\<close> labelled by the comment that heads its branch in
  the source (P2PKH, P2SH, OP_RETURN) and the final \<open>return False\<close> as \<open>Unrecognized\<close>.
\<close>

datatype ScriptKind = PayToPubkeyHash | PayToScriptHash | DataCarrier | Unrecognized

definition classify :: "byte list \<Rightarrow> py_error + ScriptKind" where
  "classify script =
     (case p2pkh_condition script of
        Inl e \<Rightarrow> Inl e
      | Inr True \<Rightarrow> Inr PayToPubkeyHash
      | Inr False \<Rightarrow>
         (case p2sh_condition script of
            Inl e \<Rightarrow> Inl e
          | Inr True \<Rightarrow> Inr PayToScriptHash
          | Inr False \<Rightarrow>
             (case op_return_condition script of
                Inl e \<Rightarrow> Inl e
              | Inr True \<Rightarrow> Inr DataCarrier
              | Inr False \<Rightarrow> Inr Unrecognized)))"

text \<open>The canonical scripts the claims speak of, built from a 20-byte hash.\<close>

definition p2pkh_template :: "byte list \<Rightarrow> byte list" where
  "p2pkh_template h = [OP_DUP, OP_HASH160, 0x14] @ h @ [OP_EQUALVERIFY, OP_CHECKSIG]"

definition p2sh_template :: "byte list \<Rightarrow> byte list" where
  "p2sh_template h = [OP_HASH160, 0x14] @ h @ [OP_EQUAL]"

subsection \<open>Transactions, as the codec decodes them\<close>

text \<open>
  \<open>CTransaction.deserialize\<close> reads an output's value as a signed 64-bit integer and an
  outpoint's index as an unsigned 32-bit one; scripts are byte strings.
\<close>

record CTxOut =
  nValue :: "64 word"
  scriptPubKey :: "byte list"

record CTxIn =
  prevout_hash :: "byte list"
  prevout_n :: "32 word"
  scriptSig :: "byte list"
  nSequence :: "32 word"

record CTransaction =
  nVersion :: "32 word"
  vin :: "CTxIn list"
  vout :: "CTxOut list"
  nLockTime :: "32 word"

text \<open>
  The methods of the codec that the source calls and does not define. They are
  parameters of the model: nothing is assumed about what they return.
\<close>

record codec =
  get_weight :: "CTransaction \<Rightarrow> int"
  get_vsize :: "CTransaction \<Rightarrow> int"
  GetHash :: "CTransaction \<Rightarrow> byte list"
  is_opreturn :: "byte list \<Rightarrow> bool"
  bytes_in :: "byte list \<Rightarrow> byte list \<Rightarrow> bool"
  is_bare_pubkey :: "byte list \<Rightarrow> bool"
  is_bare_multisig :: "byte list \<Rightarrow> bool"

text \<open>
  \<open>txout.serialize()\<close>: the value in eight little-endian bytes, the script's length as a
  compact size, the script.
\<close>

definition le_bytes :: "nat \<Rightarrow> nat \<Rightarrow> byte list" where
  "le_bytes k v = map (\<lambda>i. of_nat (v div 256 ^ i)) [0..<k]"

definition ser_compact_size :: "nat \<Rightarrow> byte list" where
  "ser_compact_size l =
     (if l < 0xfd then [of_nat l]
      else if l \<le> 0xffff then 0xfd # le_bytes 2 l
      else if l \<le> 0xffffffff then 0xfe # le_bytes 4 l
      else 0xff # le_bytes 8 l)"

definition serialize :: "CTxOut \<Rightarrow> byte list" where
  "serialize txout =
     le_bytes 8 (unat (nValue txout)) @
     ser_compact_size (length (scriptPubKey txout)) @ scriptPubKey txout"

text \<open>\<open>bytes.hex()\<close>.\<close>

definition hex :: "byte list \<Rightarrow> string" where
  "hex bs = concat (map (\<lambda>b. [''0123456789abcdef'' ! (unat b div 16),
                                ''0123456789abcdef'' ! (unat b mod 16)]) bs)"

subsection \<open>The node behind the RPC connection, and what the program emits\<close>

datatype JSONRPCException = JSONRPCException (message: string)

record mempool_entry =
  ancestorcount :: int
  ancestorsize :: int
  descendantcount :: int
  descendantsize :: int

text \<open>
  \<open>getrawtransaction\<close> answers with the previous transaction (the model takes it decoded)
  or raises JSONRPCException; \<open>getmempoolentry\<close> answers with the entry or raises.
\<close>

record rpc_connection =
  getrawtransaction :: "string \<Rightarrow> JSONRPCException + CTransaction"
  getmempoolentry :: "string \<Rightarrow> JSONRPCException + mempool_entry"

datatype event = Printed string | GetRawTransaction string | GetMempoolEntry string

text \<open>A computation: its value or the exception it raised, and the events it emitted.\<close>

type_synonym 'a effect = "(py_error + 'a) \<times> event list"

subsection \<open>Configuration constants\<close>

definition MAX_STANDARD_TX_WEIGHT :: int where "MAX_STANDARD_TX_WEIGHT = 400000"
definition MAX_STANDARD_SCRIPTSIG_SIZE :: int where "MAX_STANDARD_SCRIPTSIG_SIZE = 1650"
definition DUST_RELAY_TX_FEE :: int where "DUST_RELAY_TX_FEE = 3000"
definition DEFAULT_BYTES_PER_SIGOP :: int where "DEFAULT_BYTES_PER_SIGOP = 20"
definition MAX_UNCONFIRMED_ANCESTORS :: int where "MAX_UNCONFIRMED_ANCESTORS = 25"
definition MAX_ANCESTOR_SIZE_KB :: int where "MAX_ANCESTOR_SIZE_KB = 101"
definition MAX_DESCENDANT_COUNT :: int where "MAX_DESCENDANT_COUNT = 25"
definition MAX_DESCENDANT_SIZE_KB :: int where "MAX_DESCENDANT_SIZE_KB = 101"
definition MIN_BYTES_PER_SIGOP :: int where "MIN_BYTES_PER_SIGOP = 20"

subsection \<open>Numbers: true division of two ints\<close>

text \<open>
  \<open>a / b\<close> on two Python ints is a float: the binary64 number nearest to the exact
  quotient, ties to the even significand. ZeroDivisionError when \<open>b\<close> is 0 and
  OverflowError when the rounded quotient is beyond the largest float. The model keeps
  a float as the rational it denotes.
\<close>

definition round_half_even :: "rat \<Rightarrow> int" where
  "round_half_even x =
     (let f = \<lfloor>x\<rfloor>; d = x - of_int f
      in if d < 1 / 2 then f
         else if 1 / 2 < d then f + 1
         else if even f then f else f + 1)"

definition two_pow :: "int \<Rightarrow> rat" where
  "two_pow k = (if 0 \<le> k then 2 ^ nat k else 1 / 2 ^ nat (- k))"

text \<open>The binary exponent of a non-zero rational: \<open>two_pow e \<le> \<bar>x\<bar> < two_pow (e + 1)\<close>.\<close>

definition ilog2 :: "rat \<Rightarrow> int" where
  "ilog2 x =
     (let e = bitlen (fst (quotient_of \<bar>x\<bar>)) - bitlen (snd (quotient_of \<bar>x\<bar>))
      in if two_pow e \<le> \<bar>x\<bar> then e else e - 1)"

text \<open>
  Rounding to binary64: 53 significant bits, and a spacing of \<open>2\<^sup>-\<^sup>1\<^sup>0\<^sup>7\<^sup>4\<close> below the
  normal range.
\<close>

definition binary64_round :: "rat \<Rightarrow> rat" where
  "binary64_round x =
     (if x = 0 then 0
      else let q = max (ilog2 x - 52) (- 1074)
           in of_int (round_half_even (x / two_pow q)) * two_pow q)"

definition py_truediv :: "int \<Rightarrow> int \<Rightarrow> py_error + rat" where
  "py_truediv a b =
     (if b = 0 then Inl ZeroDivisionError
      else let r = binary64_round (of_int a / of_int b)
           in if 2 ^ 1024 \<le> \<bar>r\<bar> then Inl OverflowError else Inr r)"

subsection \<open>is_dust\<close>

text \<open>
  The threshold is the float \<open>(size * dust_relay_fee) / 1000\<close>; Python compares the int
  \<open>nValue\<close> with it exactly.
\<close>

definition is_dust :: "CTxOut \<Rightarrow> int \<Rightarrow> py_error + bool" where
  "is_dust txout dust_relay_fee =
     (let size_bytes = int (length (serialize txout))
      in case py_truediv (size_bytes * dust_relay_fee) 1000 of
           Inl e \<Rightarrow> Inl e
         | Inr dust_threshold \<Rightarrow> Inr (of_int (sint (nValue txout)) < dust_threshold))"

subsection \<open>get_transaction_fee\<close>

text \<open>
  The loop over \<open>tx.vin\<close>, with the running \<open>total_input_value\<close>. A failed lookup prints
  and makes the function return None; an outpoint index past the previous transaction's
  outputs raises IndexError, which the \<open>except JSONRPCException\<close> clause does not catch.
\<close>

fun sum_input_values :: "rpc_connection \<Rightarrow> CTxIn list \<Rightarrow> int \<Rightarrow> int option effect" where
  "sum_input_values rpc [] total_input_value = (Inr (Some total_input_value), [])"
| "sum_input_values rpc (txin # rest) total_input_value =
     (case getrawtransaction rpc (hex (prevout_hash txin)) of
        Inl e \<Rightarrow>
          (Inr None,
           [GetRawTransaction (hex (prevout_hash txin)),
            Printed (''Error fetching previous transaction: '' @ message e)])
      | Inr prev_tx \<Rightarrow>
          (if unat (prevout_n txin) < length (vout prev_tx)
           then (case sum_input_values rpc rest
                        (total_input_value +
                         sint (nValue (vout prev_tx ! unat (prevout_n txin)))) of
                   (r, evs) \<Rightarrow> (r, GetRawTransaction (hex (prevout_hash txin)) # evs))
           else (Inl IndexError, [GetRawTransaction (hex (prevout_hash txin))])))"

definition get_transaction_fee :: "rpc_connection \<Rightarrow> CTransaction \<Rightarrow> int option effect" where
  "get_transaction_fee rpc tx =
     (case sum_input_values rpc (vin tx) 0 of
        (Inr (Some total_input_value), evs) \<Rightarrow>
          (Inr (Some (total_input_value - sum_list (map (\<lambda>txout. sint (nValue txout)) (vout tx)))),
           evs)
      | (Inr None, evs) \<Rightarrow> (Inr None, evs)
      | (Inl e, evs) \<Rightarrow> (Inl e, evs))"

subsection \<open>The mempool statistics\<close>

text \<open>Each getter asks the node once; when the request raises it prints and returns 0.\<close>

definition get_ancestor_count :: "rpc_connection \<Rightarrow> string \<Rightarrow> int \<times> event list" where
  "get_ancestor_count rpc txid =
     (case getmempoolentry rpc txid of
        Inr mempool_entry \<Rightarrow> (ancestorcount mempool_entry, [GetMempoolEntry txid])
      | Inl e \<Rightarrow>
          (0, [GetMempoolEntry txid, Printed (''Error fetching ancestor count: '' @ message e)]))"

definition get_ancestor_size :: "rpc_connection \<Rightarrow> string \<Rightarrow> int \<times> event list" where
  "get_ancestor_size rpc txid =
     (case getmempoolentry rpc txid of
        Inr mempool_entry \<Rightarrow> (ancestorsize mempool_entry, [GetMempoolEntry txid])
      | Inl e \<Rightarrow>
          (0, [GetMempoolEntry txid, Printed (''Error fetching ancestor size: '' @ message e)]))"

definition get_descendant_count :: "rpc_connection \<Rightarrow> string \<Rightarrow> int \<times> event list" where
  "get_descendant_count rpc txid =
     (case getmempoolentry rpc txid of
        Inr mempool_entry \<Rightarrow> (descendantcount mempool_entry, [GetMempoolEntry txid])
      | Inl e \<Rightarrow>
          (0, [GetMempoolEntry txid, Printed (''Error fetching descendant count: '' @ message e)]))"

definition get_descendant_size :: "rpc_connection \<Rightarrow> string \<Rightarrow> int \<times> event list" where
  "get_descendant_size rpc txid =
     (case getmempoolentry rpc txid of
        Inr mempool_entry \<Rightarrow> (descendantsize mempool_entry, [GetMempoolEntry txid])
      | Inl e \<Rightarrow>
          (0, [GetMempoolEntry txid, Printed (''Error fetching descendant size: '' @ message e)]))"

subsection \<open>contains_non_bitcoin_protocol\<close>

definition Omni :: "byte list" where "Omni = [0x4f, 0x6d, 0x6e, 0x69]"
definition RSK :: "byte list" where "RSK = [0x52, 0x53, 0x4b]"

fun contains_non_bitcoin_protocol :: "codec \<Rightarrow> CTxOut list \<Rightarrow> bool \<times> event list" where
  "contains_non_bitcoin_protocol lib [] = (False, [])"
| "contains_non_bitcoin_protocol lib (txout # rest) =
     (if is_opreturn lib (scriptPubKey txout) \<and>
         (bytes_in lib Omni (scriptPubKey txout) \<or> bytes_in lib RSK (scriptPubKey txout))
      then (True,
            [Printed ''Rejected: Transaction contains non-Bitcoin token/asset overlay protocol''])
      else contains_non_bitcoin_protocol lib rest)"

subsection \<open>check_standard_tx\<close>

text \<open>
  The body of \<open>check_standard_tx\<close> is thirteen numbered blocks. A block either returns
  from the function (\<open>Some\<close> of the returned value) or falls through to the next block
  (\<open>None\<close>); \<open>then_check\<close> runs the next block only after a fall-through, and \<open>finish\<close> is
  the \<open>return True\<close> that ends the function.
\<close>

fun then_check :: "bool option effect \<Rightarrow> bool option effect \<Rightarrow> bool option effect" where
  "then_check (Inr None, evs) next_block = (fst next_block, evs @ snd next_block)"
| "then_check (Inr (Some b), evs) next_block = (Inr (Some b), evs)"
| "then_check (Inl e, evs) next_block = (Inl e, evs)"

fun finish :: "bool option effect \<Rightarrow> bool effect" where
  "finish (Inr None, evs) = (Inr True, evs)"
| "finish (Inr (Some b), evs) = (Inr b, evs)"
| "finish (Inl e, evs) = (Inl e, evs)"

text \<open>1. Unrecognised receiver scripts.\<close>

fun check_receiver_scripts :: "CTxOut list \<Rightarrow> bool option effect" where
  "check_receiver_scripts [] = (Inr None, [])"
| "check_receiver_scripts (txout # rest) =
     (case is_standard_script (scriptPubKey txout) of
        Inl e \<Rightarrow> (Inl e, [])
      | Inr False \<Rightarrow> (Inr (Some False), [Printed ''Rejected: Unrecognised receiver script''])
      | Inr True \<Rightarrow> check_receiver_scripts rest)"

text \<open>2. Parasite transactions: the flag is a local variable that the function sets to True.\<close>

definition check_parasite :: "bool option effect" where
  "check_parasite =
     (let reject_parasites = True
      in if reject_parasites
         then (Inr (Some False), [Printed ''Rejected: Parasite transaction''])
         else (Inr None, []))"

text \<open>3. Non-Bitcoin token/asset overlay protocols.\<close>

definition check_overlay :: "codec \<Rightarrow> CTransaction \<Rightarrow> bool option effect" where
  "check_overlay lib tx =
     (case contains_non_bitcoin_protocol lib (vout tx) of
        (True, evs) \<Rightarrow> (Inr (Some False), evs)
      | (False, evs) \<Rightarrow> (Inr None, evs))"

text \<open>
  4. The fee rate. \<open>Decimal(fee) / (weight / 4)\<close>: the divisor \<open>weight / 4\<close> is the
  true division of two ints, a float. The \<open>decimal\<close> module defines no arithmetic
  between a Decimal and a float: \<open>Decimal.__truediv__\<close> answers NotImplemented for a
  float operand, the float's reflected division does not know Decimal, and Python
  raises TypeError. The two arguments are the values of the Decimal and of the float.
\<close>

definition Decimal_truediv_float :: "rat \<Rightarrow> rat \<Rightarrow> py_error + rat" where
  "Decimal_truediv_float d f = Inl TypeError"

definition fee_rate :: "int \<Rightarrow> int \<Rightarrow> py_error + rat" where
  "fee_rate fee weight =
     (case py_truediv weight 4 of
        Inl e \<Rightarrow> Inl e
      | Inr quarter_weight \<Rightarrow> Decimal_truediv_float (of_int fee) quarter_weight)"

text \<open>
  The block: a fee of None returns False with no message of its own; otherwise the
  weight is read and the rate computed, and a rate below the float \<open>0.00001000\<close>
  (a Decimal and a float are compared exactly) is rejected.
\<close>

definition check_fee_rate :: "codec \<Rightarrow> rpc_connection \<Rightarrow> CTransaction \<Rightarrow> bool option effect" where
  "check_fee_rate lib rpc tx =
     (case get_transaction_fee rpc tx of
        (Inl e, evs) \<Rightarrow> (Inl e, evs)
      | (Inr None, evs) \<Rightarrow> (Inr (Some False), evs)
      | (Inr (Some fee), evs) \<Rightarrow>
          (case fee_rate fee (get_weight lib tx) of
             Inl e \<Rightarrow> (Inl e, evs)
           | Inr r \<Rightarrow>
               (if r < binary64_round (1 / 100000)
                then (Inr (Some False), evs @ [Printed ''Rejected: Low fee rate''])
                else (Inr None, evs))))"

text \<open>5. The virtual size adjusted for the estimated signature operations.\<close>

definition check_adjusted_vsize :: "codec \<Rightarrow> CTransaction \<Rightarrow> bool option effect" where
  "check_adjusted_vsize lib tx =
     (let total_sigops =
            sum_list (map (\<lambda>txin. int (length (scriptSig txin)) div DEFAULT_BYTES_PER_SIGOP)
                          (vin tx));
          adjusted_vsize = get_vsize lib tx + total_sigops * DEFAULT_BYTES_PER_SIGOP
      in if adjusted_vsize > MAX_STANDARD_TX_WEIGHT
         then (Inr (Some False),
               [Printed ''Rejected: Adjusted vsize exceeds weight limit due to SigOps''])
         else (Inr None, []))"

text \<open>6. The minimum number of bytes per signature operation.\<close>

fun check_min_bytes_per_sigop :: "CTxIn list \<Rightarrow> bool option effect" where
  "check_min_bytes_per_sigop [] = (Inr None, [])"
| "check_min_bytes_per_sigop (txin # rest) =
     (if int (length (scriptSig txin)) < MIN_BYTES_PER_SIGOP
      then (Inr (Some False),
            [Printed ''Rejected: Fewer than minimum bytes per potentially-executed SigOp''])
      else check_min_bytes_per_sigop rest)"

text \<open>7 to 10. Ancestors and descendants in the mempool.\<close>

definition check_ancestor_count :: "rpc_connection \<Rightarrow> string \<Rightarrow> bool option effect" where
  "check_ancestor_count rpc txid =
     (case get_ancestor_count rpc txid of
        (ancestor_count, evs) \<Rightarrow>
          (if ancestor_count \<ge> MAX_UNCONFIRMED_ANCESTORS
           then (Inr (Some False), evs @ [Printed ''Rejected: Too many unconfirmed ancestors''])
           else (Inr None, evs)))"

definition check_ancestor_size :: "rpc_connection \<Rightarrow> string \<Rightarrow> bool option effect" where
  "check_ancestor_size rpc txid =
     (case get_ancestor_size rpc txid of
        (ancestor_size, evs) \<Rightarrow>
          (if ancestor_size > MAX_ANCESTOR_SIZE_KB * 1000
           then (Inr (Some False), evs @ [Printed ''Rejected: Ancestor size too large''])
           else (Inr None, evs)))"

definition check_descendant_count :: "rpc_connection \<Rightarrow> string \<Rightarrow> bool option effect" where
  "check_descendant_count rpc txid =
     (case get_descendant_count rpc txid of
        (descendant_count, evs) \<Rightarrow>
          (if descendant_count \<ge> MAX_DESCENDANT_COUNT
           then (Inr (Some False), evs @ [Printed ''Rejected: Too many unconfirmed descendants''])
           else (Inr None, evs)))"

definition check_descendant_size :: "rpc_connection \<Rightarrow> string \<Rightarrow> bool option effect" where
  "check_descendant_size rpc txid =
     (case get_descendant_size rpc txid of
        (descendant_size, evs) \<Rightarrow>
          (if descendant_size > MAX_DESCENDANT_SIZE_KB * 1000
           then (Inr (Some False), evs @ [Printed ''Rejected: Descendant size too large''])
           else (Inr None, evs)))"

definition topology_checks :: "rpc_connection \<Rightarrow> string \<Rightarrow> bool option effect" where
  "topology_checks rpc txid =
     then_check (check_ancestor_count rpc txid)
    (then_check (check_ancestor_size rpc txid)
    (then_check (check_descendant_count rpc txid)
                (check_descendant_size rpc txid)))"

text \<open>11. Bare public keys.\<close>

fun check_bare_pubkey :: "codec \<Rightarrow> CTxOut list \<Rightarrow> bool option effect" where
  "check_bare_pubkey lib [] = (Inr None, [])"
| "check_bare_pubkey lib (txout # rest) =
     (if is_bare_pubkey lib (scriptPubKey txout)
      then (Inr (Some False), [Printed ''Rejected: Bare/exposed public key''])
      else check_bare_pubkey lib rest)"

text \<open>12. Bare multisig scripts.\<close>

fun check_bare_multisig :: "codec \<Rightarrow> CTxOut list \<Rightarrow> bool option effect" where
  "check_bare_multisig lib [] = (Inr None, [])"
| "check_bare_multisig lib (txout # rest) =
     (if is_bare_multisig lib (scriptPubKey txout)
      then (Inr (Some False), [Printed ''Rejected: Bare/exposed multisig script''])
      else check_bare_multisig lib rest)"

text \<open>13. The size of each locking script.\<close>

fun check_script_size :: "CTxOut list \<Rightarrow> bool option effect" where
  "check_script_size [] = (Inr None, [])"
| "check_script_size (txout # rest) =
     (if int (length (scriptPubKey txout)) > MAX_STANDARD_SCRIPTSIG_SIZE
      then (Inr (Some False), [Printed ''Rejected: Smart contract code too large''])
      else check_script_size rest)"

definition check_standard_tx :: "codec \<Rightarrow> rpc_connection \<Rightarrow> CTransaction \<Rightarrow> bool effect" where
  "check_standard_tx lib rpc tx =
     finish
      (then_check (check_receiver_scripts (vout tx))
      (then_check check_parasite
      (then_check (check_overlay lib tx)
      (then_check (check_fee_rate lib rpc tx)
      (then_check (check_adjusted_vsize lib tx)
      (then_check (check_min_bytes_per_sigop (vin tx))
      (then_check (topology_checks rpc (hex (GetHash lib tx)))
      (then_check (check_bare_pubkey lib (vout tx))
      (then_check (check_bare_multisig lib (vout tx))
                  (check_script_size (vout tx)))))))))))"

subsection \<open>Example inputs\<close>

text \<open>
  A node that refuses every request, a node that knows a funding transaction with one
  output of 100000 for every outpoint and reports no ancestors and no descendants, a
  codec, and two transactions: one with a single pay-to-pubkey-hash output, and one that
  also pays to a canonical pay-to-script-hash script.
\<close>

definition offline_node :: rpc_connection where
  "offline_node =
     \<lparr>getrawtransaction = (\<lambda>txid. Inl (JSONRPCException ''connection refused'')),
      getmempoolentry = (\<lambda>txid. Inl (JSONRPCException ''connection refused''))\<rparr>"

definition funded_node :: rpc_connection where
  "funded_node =
     \<lparr>getrawtransaction = (\<lambda>txid. Inr \<lparr>nVersion = 1, vin = [],
          vout = [\<lparr>nValue = 100000, scriptPubKey = p2pkh_template (replicate 20 0x22)\<rparr>],
          nLockTime = 0\<rparr>),
      getmempoolentry = (\<lambda>txid. Inr \<lparr>ancestorcount = 0, ancestorsize = 0,
          descendantcount = 0, descendantsize = 0\<rparr>)\<rparr>"

definition example_codec :: codec where
  "example_codec =
     \<lparr>get_weight = (\<lambda>tx. 904), get_vsize = (\<lambda>tx. 226),
      GetHash = (\<lambda>tx. replicate 32 0xab),
      is_opreturn = (\<lambda>script. take 1 script = [OP_RETURN]),
      bytes_in = (\<lambda>needle script. False),
      is_bare_pubkey = (\<lambda>script. False),
      is_bare_multisig = (\<lambda>script. False)\<rparr>"

definition scenario_A_tx :: CTransaction where
  "scenario_A_tx =
     \<lparr>nVersion = 1,
      vin = [\<lparr>prevout_hash = replicate 32 0x01, prevout_n = 0,
              scriptSig = replicate 107 0, nSequence = 0xffffffff\<rparr>],
      vout = [\<lparr>nValue = 90000, scriptPubKey = p2pkh_template (replicate 20 0x11)\<rparr>],
      nLockTime = 0\<rparr>"

definition unrecognised_tx :: CTransaction where
  "unrecognised_tx =
     \<lparr>nVersion = 1,
      vin = [\<lparr>prevout_hash = replicate 32 0x01, prevout_n = 0,
              scriptSig = replicate 107 0, nSequence = 0xffffffff\<rparr>],
      vout = [\<lparr>nValue = 90000, scriptPubKey = p2pkh_template (replicate 20 0x11)\<rparr>,
              \<lparr>nValue = 5000, scriptPubKey = p2sh_template (replicate 20 0x33)\<rparr>],
      nLockTime = 0\<rparr>"

text \<open>
  A node that knows the funding transaction of the outpoint \<open>01..01\<close> only, and a
  transaction that spends that outpoint and then one the node does not know.
\<close>

definition half_funded_node :: rpc_connection where
  "half_funded_node =
     \<lparr>getrawtransaction = (\<lambda>txid.
          if txid = hex (replicate 32 0x01)
          then Inr \<lparr>nVersion = 1, vin = [],
                 vout = [\<lparr>nValue = 100000, scriptPubKey = p2pkh_template (replicate 20 0x22)\<rparr>],
                 nLockTime = 0\<rparr>
          else Inl (JSONRPCException ''No such mempool or blockchain transaction'')),
      getmempoolentry = (\<lambda>txid. Inr \<lparr>ancestorcount = 0, ancestorsize = 0,
          descendantcount = 0, descendantsize = 0\<rparr>)\<rparr>"

definition found_txin :: CTxIn where
  "found_txin = \<lparr>prevout_hash = replicate 32 0x01, prevout_n = 0,
                  scriptSig = replicate 107 0, nSequence = 0xffffffff\<rparr>"

definition missing_txin :: CTxIn where
  "missing_txin = \<lparr>prevout_hash = replicate 32 0x02, prevout_n = 1,
                    scriptSig = replicate 107 0, nSequence = 0xffffffff\<rparr>"

definition scenario_D_tx :: CTransaction where
  "scenario_D_tx =
     \<lparr>nVersion = 1,
      vin = [found_txin, missing_txin],
      vout = [\<lparr>nValue = 90000, scriptPubKey = p2pkh_template (replicate 20 0x11)\<rparr>],
      nLockTime = 0\<rparr>"

text \<open>
  An output with an empty script, 9 bytes when serialized, worth \<open>2\<^sup>4\<^sup>4 + 4\<close>.
\<close>

definition dust_example_txout :: CTxOut where
  "dust_example_txout = \<lparr>nValue = 17592186044420, scriptPubKey = []\<rparr>"

section \<open>Properties of the script classifier\<close>

lemma py_and_Inr [simp]:
  "py_and (Inr a) (Inr b) = Inr (a \<and> b)"
  by (cases a) (simp_all add: py_and_def)

lemma py_and_False [simp]: "py_and (Inr False) x = Inr False"
  by (simp add: py_and_def)

lemma py_and_True [simp]: "py_and (Inr True) x = x"
  by (simp add: py_and_def)

lemma item_eq_in_range [simp]:
  "i < length script \<Longrightarrow> item_eq script i op = Inr (script ! i = op)"
  by (simp add: item_eq_def getitem_def)

lemma p2pkh_condition_total:
  "p2pkh_condition script =
     Inr (length script = 25 \<and> script ! 0 = OP_DUP \<and> script ! 1 = OP_HASH160 \<and>
          script ! 2 = 0x14 \<and> script ! 23 = OP_EQUALVERIFY \<and> script ! 24 = OP_CHECKSIG)"
  by (cases "length script = 25") (simp_all add: p2pkh_condition_def)

lemma p2sh_condition_total:
  "p2sh_condition script =
     Inr (length script = 23 \<and> script ! 0 = OP_HASH160 \<and> script ! 1 = 0x14 \<and>
          script ! 22 = OP_EQUALVERIFY)"
  by (cases "length script = 23") (simp_all add: p2sh_condition_def)

lemma op_return_condition_total:
  "op_return_condition script = Inr (length script > 0 \<and> script ! 0 = OP_RETURN)"
  by (cases "length script > 0") (simp_all add: op_return_condition_def)

lemma is_standard_script_classify:
  "is_standard_script script =
     (case classify script of Inl e \<Rightarrow> Inl e | Inr k \<Rightarrow> Inr (k \<noteq> Unrecognized))"
  by (simp add: is_standard_script_def classify_def p2pkh_condition_total
      p2sh_condition_total op_return_condition_total split: bool.split)

lemma classify_never_raises: "\<exists>k. classify script = Inr k"
  by (simp add: classify_def p2pkh_condition_total p2sh_condition_total
      op_return_condition_total split: bool.split)

lemma is_standard_script_iff:
  "is_standard_script script = Inr (classify script \<noteq> Inr Unrecognized)"
  using classify_never_raises [of script] by (auto simp: is_standard_script_classify)

lemma classify_p2pkh: "length h = 20 \<Longrightarrow> classify (p2pkh_template h) = Inr PayToPubkeyHash"
  by (simp add: classify_def p2pkh_condition_total p2pkh_template_def nth_append)

lemma classify_p2sh: "length h = 20 \<Longrightarrow> classify (p2sh_template h) = Inr Unrecognized"
  by (simp add: classify_def p2pkh_condition_total p2sh_condition_total
      op_return_condition_total p2sh_template_def nth_append
      OP_HASH160_def OP_EQUAL_def OP_EQUALVERIFY_def OP_RETURN_def)

lemma classify_empty: "classify [] = Inr Unrecognized"
  by (simp add: classify_def p2pkh_condition_total p2sh_condition_total
      op_return_condition_total)

text \<open>
  C6. The classifier is total: on every byte string, of any length, it raises nothing
  and returns exactly one kind (and is_standard_script exactly one truth value), and
  the empty byte string is Unrecognized.
\<close>

theorem classify_total:
  "(\<exists>!k. classify script = Inr k) \<and>
   (\<exists>!b. is_standard_script script = Inr b) \<and>
   classify [] = Inr Unrecognized \<and>
   is_standard_script [] = Inr False"
proof (intro conjI)
  obtain k where "classify script = Inr k"
    using classify_never_raises by blast
  then show "\<exists>!k. classify script = Inr k"
    by simp
  show "\<exists>!b. is_standard_script script = Inr b"
    by (simp add: is_standard_script_iff)
  show "classify [] = Inr Unrecognized"
    by (rule classify_empty)
  then show "is_standard_script [] = Inr False"
    by (simp add: is_standard_script_iff)
qed

text \<open>
  C7. Round trip: the canonical 25-byte script DUP HASH160 0x14 (20 bytes) EQUALVERIFY
  CHECKSIG built from any 20-byte payload is classified PayToPubkeyHash, and
  is_standard_script returns True on it.
\<close>

theorem classify_p2pkh_template:
  "length h = 20 \<Longrightarrow>
   length (p2pkh_template h) = 25 \<and>
   classify (p2pkh_template h) = Inr PayToPubkeyHash \<and>
   is_standard_script (p2pkh_template h) = Inr True"
  by (simp add: is_standard_script_iff classify_p2pkh) (simp add: p2pkh_template_def)

theorem classify_p2pkh_template_witness:
  "length (replicate 20 (0x11 :: byte)) = 20 \<and>
   classify (p2pkh_template (replicate 20 0x11)) = Inr PayToPubkeyHash \<and>
   is_standard_script (p2pkh_template (replicate 20 0x11)) = Inr True"
  using classify_p2pkh_template [of "replicate 20 0x11"] by simp

text \<open>
  C4. The canonical pay-to-script-hash script, HASH160 0x14 (20 bytes) EQUAL, is not
  classified PayToScriptHash: the second branch of is_standard_script compares byte 22
  with EQUALVERIFY, so the script falls through to Unrecognized, and the script that
  ends in EQUALVERIFY is the one that is accepted.
\<close>

theorem classify_p2sh_canonical:
  "classify (p2sh_template (replicate 20 0)) = Inr Unrecognized \<and>
   is_standard_script (p2sh_template (replicate 20 0)) = Inr False \<and>
   classify ([OP_HASH160, 0x14] @ replicate 20 0 @ [OP_EQUALVERIFY]) = Inr PayToScriptHash"
  by (simp add: is_standard_script_classify classify_def p2pkh_condition_total
      p2sh_condition_total op_return_condition_total p2sh_template_def nth_append
      OP_HASH160_def OP_EQUAL_def OP_EQUALVERIFY_def OP_RETURN_def)

section \<open>Properties of check_standard_tx\<close>

text \<open>
  No call of is_standard_script raises, so the first block is decided by the kinds of
  the outputs alone, and the whole function by its first two blocks.
\<close>

lemma check_receiver_scripts_eq:
  "check_receiver_scripts outs =
     (if list_all (\<lambda>txout. classify (scriptPubKey txout) \<noteq> Inr Unrecognized) outs
      then (Inr None, [])
      else (Inr (Some False), [Printed ''Rejected: Unrecognised receiver script'']))"
  by (induction outs) (simp_all add: is_standard_script_iff split: bool.split)

lemma check_standard_tx_eq:
  "check_standard_tx lib rpc tx =
     (Inr False,
      [Printed (if list_all (\<lambda>txout. classify (scriptPubKey txout) \<noteq> Inr Unrecognized) (vout tx)
                then ''Rejected: Parasite transaction''
                else ''Rejected: Unrecognised receiver script'')])"
  by (simp add: check_standard_tx_def check_receiver_scripts_eq check_parasite_def)

text \<open>
  C1. A transaction with at least one output whose script is Unrecognized is rejected
  with the unrecognised-script message, whatever the codec and the node report about
  fees, weights and mempool statistics and whatever its other outputs are. Nothing else
  is evaluated: the message is the only event, and no request is sent to the node.
\<close>

theorem unrecognised_script_dominates:
  "\<exists>txout \<in> set (vout tx). classify (scriptPubKey txout) = Inr Unrecognized \<Longrightarrow>
   check_standard_tx lib rpc tx =
     (Inr False, [Printed ''Rejected: Unrecognised receiver script''])"
  by (auto simp: check_standard_tx_eq list_all_iff)

theorem unrecognised_script_dominates_witness:
  "(\<exists>txout \<in> set (vout unrecognised_tx). classify (scriptPubKey txout) = Inr Unrecognized) \<and>
   check_standard_tx example_codec funded_node unrecognised_tx =
     (Inr False, [Printed ''Rejected: Unrecognised receiver script''])"
proof -
  have h: "\<exists>txout \<in> set (vout unrecognised_tx). classify (scriptPubKey txout) = Inr Unrecognized"
    by (simp add: unrecognised_tx_def classify_p2sh)
  from h unrecognised_script_dominates [OF h] show ?thesis by blast
qed

text \<open>
  C3. check_standard_tx returns False on every transaction: at block 1 when some output
  is Unrecognized, and otherwise at the parasite block, whose flag is always True. The
  result names neither the codec nor the node, so fees, overlay markers, mempool
  statistics and blocks 3 to 13 have no part in it.
\<close>

theorem check_standard_tx_always_rejects:
  "check_standard_tx lib rpc tx =
     (Inr False,
      [Printed (if list_all (\<lambda>txout. classify (scriptPubKey txout) \<noteq> Inr Unrecognized) (vout tx)
                then ''Rejected: Parasite transaction''
                else ''Rejected: Unrecognised receiver script'')])"
  by (rule check_standard_tx_eq)


text \<open>
  C5, as the claim states it, fails: with a node that cannot supply the previous
  transaction of input 0, check_standard_tx returns the same value, False after the
  parasite message, as it does for the same transaction when the node supplies it.
\<close>

theorem missing_context_counterexample:
  "getrawtransaction offline_node (hex (prevout_hash (vin scenario_A_tx ! 0))) =
     Inl (JSONRPCException ''connection refused'') \<and>
   check_standard_tx example_codec offline_node scenario_A_tx =
     (Inr False, [Printed ''Rejected: Parasite transaction'']) \<and>
   check_standard_tx example_codec funded_node scenario_A_tx =
     (Inr False, [Printed ''Rejected: Parasite transaction''])"
  by (simp add: check_standard_tx_eq scenario_A_tx_def classify_p2pkh offline_node_def)

lemma sum_input_values_first_missing:
  "(\<forall>other \<in> set before. \<exists>prev_tx.
      getrawtransaction rpc (hex (prevout_hash other)) = Inr prev_tx \<and>
      unat (prevout_n other) < length (vout prev_tx)) \<Longrightarrow>
   getrawtransaction rpc (hex (prevout_hash txin)) = Inl e \<Longrightarrow>
   sum_input_values rpc (before @ txin # after) acc =
     (Inr None,
      map (\<lambda>other. GetRawTransaction (hex (prevout_hash other))) before @
      [GetRawTransaction (hex (prevout_hash txin)),
       Printed (''Error fetching previous transaction: '' @ message e)])"
proof (induction before arbitrary: acc)
  case Nil
  then show ?case by simp
next
  case (Cons a before)
  from Cons.prems(1) obtain prev_tx
    where found: "getrawtransaction rpc (hex (prevout_hash a)) = Inr prev_tx"
      and valid: "unat (prevout_n a) < length (vout prev_tx)"
    by auto
  from Cons.prems(1) have rest: "\<forall>other \<in> set before. \<exists>prev_tx.
      getrawtransaction rpc (hex (prevout_hash other)) = Inr prev_tx \<and>
      unat (prevout_n other) < length (vout prev_tx)"
    by simp
  show ?case
    by (simp add: found valid Cons.IH [OF rest Cons.prems(2)])
qed

lemma hex_01: "hex (replicate 32 0x01) =
    ''0101010101010101010101010101010101010101010101010101010101010101''"
  by code_simp

lemma hex_02: "hex (replicate 32 0x02) =
    ''0202020202020202020202020202020202020202020202020202020202020202''"
  by code_simp

text \<open>
  C5, amended. When the lookup of an input's previous transaction fails, and the inputs
  before it were found and refer to outputs that exist, get_transaction_fee has sent
  one request per input up to that one, prints the error and returns None, a value that
  no fee is. The fee block maps that None to the return value False and prints no
  message of its own: check_standard_tx has no separate kind of result for it.
\<close>

theorem missing_context_folded:
  "vin tx = before @ txin # after \<Longrightarrow>
   (\<forall>other \<in> set before. \<exists>prev_tx.
      getrawtransaction rpc (hex (prevout_hash other)) = Inr prev_tx \<and>
      unat (prevout_n other) < length (vout prev_tx)) \<Longrightarrow>
   getrawtransaction rpc (hex (prevout_hash txin)) = Inl e \<Longrightarrow>
   get_transaction_fee rpc tx =
     (Inr None,
      map (\<lambda>other. GetRawTransaction (hex (prevout_hash other))) before @
      [GetRawTransaction (hex (prevout_hash txin)),
       Printed (''Error fetching previous transaction: '' @ message e)]) \<and>
   check_fee_rate lib rpc tx =
     (Inr (Some False),
      map (\<lambda>other. GetRawTransaction (hex (prevout_hash other))) before @
      [GetRawTransaction (hex (prevout_hash txin)),
       Printed (''Error fetching previous transaction: '' @ message e)]) \<and>
   finish (check_fee_rate lib rpc tx) =
     (Inr False,
      map (\<lambda>other. GetRawTransaction (hex (prevout_hash other))) before @
      [GetRawTransaction (hex (prevout_hash txin)),
       Printed (''Error fetching previous transaction: '' @ message e)])"
  by (simp add: get_transaction_fee_def check_fee_rate_def sum_input_values_first_missing)

theorem missing_context_folded_witness:
  "vin scenario_D_tx = [found_txin] @ missing_txin # [] \<and>
   get_transaction_fee half_funded_node scenario_D_tx =
     (Inr None,
      [GetRawTransaction ''0101010101010101010101010101010101010101010101010101010101010101'',
       GetRawTransaction ''0202020202020202020202020202020202020202020202020202020202020202'',
       Printed ''Error fetching previous transaction: No such mempool or blockchain transaction'']) \<and>
   check_fee_rate example_codec half_funded_node scenario_D_tx =
     (Inr (Some False),
      [GetRawTransaction ''0101010101010101010101010101010101010101010101010101010101010101'',
       GetRawTransaction ''0202020202020202020202020202020202020202020202020202020202020202'',
       Printed ''Error fetching previous transaction: No such mempool or blockchain transaction''])"
  using missing_context_folded [of scenario_D_tx "[found_txin]" missing_txin "[]"
      half_funded_node "JSONRPCException ''No such mempool or blockchain transaction''"
      example_codec]
  by (simp add: scenario_D_tx_def half_funded_node_def found_txin_def missing_txin_def
      hex_01 hex_02)

section \<open>Properties of the mempool checks\<close>

text \<open>
  C8. On the statistics the node supplies for the transaction, blocks 7 to 10 reject
  exactly when the ancestor count is at least 25, or the ancestor size exceeds
  101 * 1000, or the descendant count is at least 25, or the descendant size exceeds
  101 * 1000. They are evaluated in that order: the events show one request per block
  evaluated and the message of the first block that fails.
\<close>

theorem topology_checks_exact:
  "getmempoolentry rpc txid = Inr entry \<Longrightarrow>
   (fst (topology_checks rpc txid) = Inr (Some False)) =
     (ancestorcount entry \<ge> 25 \<or> ancestorsize entry > 101 * 1000 \<or>
      descendantcount entry \<ge> 25 \<or> descendantsize entry > 101 * 1000) \<and>
   (fst (topology_checks rpc txid) = Inr None) =
     (\<not> (ancestorcount entry \<ge> 25 \<or> ancestorsize entry > 101 * 1000 \<or>
         descendantcount entry \<ge> 25 \<or> descendantsize entry > 101 * 1000)) \<and>
   snd (topology_checks rpc txid) =
     (if ancestorcount entry \<ge> 25
      then [GetMempoolEntry txid, Printed ''Rejected: Too many unconfirmed ancestors'']
      else if ancestorsize entry > 101 * 1000
      then [GetMempoolEntry txid, GetMempoolEntry txid,
            Printed ''Rejected: Ancestor size too large'']
      else if descendantcount entry \<ge> 25
      then [GetMempoolEntry txid, GetMempoolEntry txid, GetMempoolEntry txid,
            Printed ''Rejected: Too many unconfirmed descendants'']
      else if descendantsize entry > 101 * 1000
      then [GetMempoolEntry txid, GetMempoolEntry txid, GetMempoolEntry txid,
            GetMempoolEntry txid, Printed ''Rejected: Descendant size too large'']
      else [GetMempoolEntry txid, GetMempoolEntry txid, GetMempoolEntry txid,
            GetMempoolEntry txid])"
  by (simp add: topology_checks_def check_ancestor_count_def check_ancestor_size_def
        check_descendant_count_def check_descendant_size_def get_ancestor_count_def
        get_ancestor_size_def get_descendant_count_def get_descendant_size_def
        MAX_UNCONFIRMED_ANCESTORS_def MAX_ANCESTOR_SIZE_KB_def
        MAX_DESCENDANT_COUNT_def MAX_DESCENDANT_SIZE_KB_def)

theorem topology_checks_exact_witness:
  "getmempoolentry funded_node ''ab'' =
     Inr \<lparr>ancestorcount = 0, ancestorsize = 0, descendantcount = 0, descendantsize = 0\<rparr> \<and>
   fst (topology_checks funded_node ''ab'') = Inr None \<and>
   snd (topology_checks funded_node ''ab'') =
     [GetMempoolEntry ''ab'', GetMempoolEntry ''ab'', GetMempoolEntry ''ab'',
      GetMempoolEntry ''ab'']"
  using topology_checks_exact [of funded_node "''ab''"
      "\<lparr>ancestorcount = 0, ancestorsize = 0, descendantcount = 0, descendantsize = 0\<rparr>"]
  by (simp add: funded_node_def)

section \<open>Properties of the fee rate\<close>



lemma fee_rate_raises: "\<exists>e. fee_rate fee weight = Inl e"
  by (simp add: fee_rate_def Decimal_truediv_float_def split: sum.split)


section \<open>Properties of is_dust\<close>

text \<open>
  Rounding to binary64 moves a number by at most half the spacing at its magnitude and
  leaves an integer below \<open>2\<^sup>5\<^sup>3\<close> where it is. A quotient \<open>n / 1000\<close> with
  \<open>\<bar>n\<bar> < 2\<^sup>5\<^sup>3\<close> therefore moves by less than 1/1000, too little to cross an
  integer, and the comparison of an int with the float agrees with the comparison with
  the exact quotient.
\<close>

lemma round_half_even_error: "\<bar>of_int (round_half_even x) - x\<bar> \<le> 1 / 2"
proof -
  have "of_int \<lfloor>x\<rfloor> \<le> x" "x < of_int \<lfloor>x\<rfloor> + 1"
    by linarith+
  then show ?thesis
    by (auto simp: round_half_even_def Let_def)
qed

lemma round_half_even_of_int [simp]: "round_half_even (of_int n) = n"
  by (simp add: round_half_even_def)

lemma two_pow_powi: "two_pow k = 2 powi k"
  by (simp add: two_pow_def power_int_def field_simps)

lemma two_pow_pos [simp]: "0 < two_pow k"
  by (simp add: two_pow_powi)

lemma ilog2_lower:
  assumes "x \<noteq> 0"
  shows "two_pow (ilog2 x) \<le> \<bar>x\<bar>"
proof -
  obtain p q where pq: "quotient_of \<bar>x\<bar> = (p, q)"
    by (cases "quotient_of \<bar>x\<bar>")
  then have q: "0 < q" and x: "\<bar>x\<bar> = of_int p / of_int q"
    using quotient_of_denom_pos quotient_of_div by blast+
  have "0 < \<bar>x\<bar>"
    using assms by simp
  then have "0 < (of_int p :: rat) / of_int q"
    by (simp only: x)
  with q have p: "0 < p"
    by (simp add: zero_less_divide_iff)
  let ?e = "bitlen p - bitlen q"
  show ?thesis
  proof (cases "two_pow ?e \<le> \<bar>x\<bar>")
    case True
    then show ?thesis by (simp add: ilog2_def pq)
  next
    case False
    have "bitlen p \<noteq> 0"
      using p by (simp add: bitlen_eq_zero_iff)
    with bitlen_nonneg [of p] have bp: "0 \<le> bitlen p - 1"
      by linarith
    have "(2::int) ^ nat (bitlen p - 1) \<le> p" and "q \<le> 2 ^ nat (bitlen q)"
      using bitlen_bounds [OF p] bitlen_bounds [OF q] by simp_all
    then have "(of_int ((2::int) ^ nat (bitlen p - 1)) :: rat) \<le> of_int p"
      and "(of_int q :: rat) \<le> of_int ((2::int) ^ nat (bitlen q))"
      by (simp_all only: of_int_le_iff)
    then have lo: "(2::rat) powi (bitlen p - 1) \<le> of_int p"
      and hi: "of_int q \<le> (2::rat) powi (bitlen q)"
      using bp bitlen_nonneg [of q] by (simp_all add: power_int_def)
    have eq: "bitlen p - bitlen q - 1 = bitlen p - 1 - bitlen q"
      by simp
    have "(2::rat) powi (?e - 1) = 2 powi (bitlen p - 1) / 2 powi (bitlen q)"
      unfolding eq by (rule power_int_diff) simp
    also have "\<dots> \<le> of_int p / 2 powi (bitlen q)"
      using lo by (simp add: divide_right_mono)
    also have "\<dots> \<le> of_int p / of_int q"
      using hi p q by (simp add: divide_left_mono)
    finally have "two_pow (?e - 1) \<le> \<bar>x\<bar>"
      by (simp only: two_pow_powi x)
    moreover from False have "ilog2 x = ?e - 1"
      by (simp add: ilog2_def pq Let_def)
    ultimately show ?thesis
      by simp
  qed
qed

lemma binary64_round_error:
  assumes "x \<noteq> 0"
  shows "\<bar>binary64_round x - x\<bar> \<le> two_pow (max (ilog2 x - 52) (- 1074)) / 2"
proof -
  let ?q = "max (ilog2 x - 52) (- 1074)"
  have "binary64_round x - x = (of_int (round_half_even (x / two_pow ?q)) - x / two_pow ?q) * two_pow ?q"
    using assms less_imp_neq [OF two_pow_pos [of ?q]]
    by (simp add: binary64_round_def Let_def left_diff_distrib)
  then have "\<bar>binary64_round x - x\<bar> =
      \<bar>of_int (round_half_even (x / two_pow ?q)) - x / two_pow ?q\<bar> * two_pow ?q"
    by (simp add: abs_mult abs_of_pos)
  also have "\<dots> \<le> 1 / 2 * two_pow ?q"
    by (intro mult_right_mono round_half_even_error less_imp_le two_pow_pos)
  finally show ?thesis by simp
qed

lemma binary64_round_of_int:
  assumes "\<bar>v\<bar> < 2 ^ 53"
  shows "binary64_round (of_int v) = of_int v"
proof (cases "v = 0")
  case True
  then show ?thesis by (simp add: binary64_round_def)
next
  case False
  let ?x = "of_int v :: rat"
  let ?q = "max (ilog2 ?x - 52) (- 1074)"
  have "two_pow (ilog2 ?x) \<le> \<bar>?x\<bar>"
    using False by (intro ilog2_lower) simp
  also have "\<bar>?x\<bar> < 2 powi 53"
    using assms by (simp flip: of_int_abs)
  finally have "ilog2 ?x < 53"
    by (simp only: two_pow_powi) (rule power_int_le_imp_less_exp [of 2], simp_all)
  then have q: "?q \<le> 0"
    by simp
  then have tq: "two_pow ?q = 1 / 2 ^ nat (- ?q)"
    by (cases "?q = 0") (simp_all add: two_pow_def)
  have "?x / two_pow ?q = of_int (v * 2 ^ nat (- ?q))"
    by (simp add: tq)
  then have "round_half_even (?x / two_pow ?q) = v * 2 ^ nat (- ?q)"
    by (simp only: round_half_even_of_int)
  then have "binary64_round ?x = of_int (v * 2 ^ nat (- ?q)) * two_pow ?q"
    using False by (simp add: binary64_round_def Let_def)
  also have "\<dots> = ?x"
    by (simp add: tq)
  finally show ?thesis .
qed

lemma binary64_round_near:
  assumes "\<bar>n\<bar> < 2 ^ 53"
  shows "\<bar>binary64_round (of_int n / 1000) - of_int n / 1000\<bar> < 1 / 1000"
proof (cases "n = 0")
  case True
  then show ?thesis by (simp add: binary64_round_def)
next
  case False
  let ?x = "of_int n / 1000 :: rat"
  have x0: "?x \<noteq> 0" using False by simp
  have ax: "\<bar>?x\<bar> < 2 ^ 53 / 1000"
    using assms by (simp flip: of_int_abs)
  have "two_pow (max (ilog2 ?x - 52) (- 1074)) / 2 < 1 / 1000"
  proof (cases "ilog2 ?x - 52 \<ge> - 1074")
    case True
    then have m: "max (ilog2 ?x - 52) (- 1074) = ilog2 ?x - 52"
      by simp
    have "two_pow (ilog2 ?x - 52) = two_pow (ilog2 ?x) / 2 ^ 52"
      unfolding two_pow_powi by (subst power_int_diff) simp_all
    then have "two_pow (max (ilog2 ?x - 52) (- 1074)) / 2 = two_pow (ilog2 ?x) / 2 ^ 53"
      by (simp add: m)
    also have "\<dots> \<le> \<bar>?x\<bar> / 2 ^ 53"
      using ilog2_lower [OF x0] by (simp add: divide_right_mono)
    also have "\<dots> < 1 / 1000"
      using ax by simp
    finally show ?thesis .
  next
    case False
    then have "two_pow (max (ilog2 ?x - 52) (- 1074)) = 2 powi (- 1074)"
      by (simp add: max_def two_pow_powi)
    also have "\<dots> \<le> (2::rat) powi (- 10)"
      by (rule power_int_increasing) simp_all
    finally show ?thesis
      by (simp add: power_int_minus)
  qed
  with binary64_round_error [OF x0] show ?thesis
    by linarith
qed

lemma lt_binary64_round_iff:
  assumes "\<bar>n\<bar> < 2 ^ 53"
  shows "(of_int v < binary64_round (of_int n / 1000)) = ((of_int v :: rat) < of_int n / 1000)"
proof -
  let ?f = "binary64_round (of_int n / 1000)"
  note near = binary64_round_near [OF assms]
  consider "1000 * v < n" | "1000 * v = n" | "n < 1000 * v"
    by linarith
  then show ?thesis
  proof cases
    case 1
    then have "1000 * v + 1 \<le> n" by simp
    then have "(of_int (1000 * v + 1) :: rat) \<le> of_int n"
      by (simp only: of_int_le_iff)
    then have "(of_int v :: rat) + 1 / 1000 \<le> of_int n / 1000"
      by simp
    with near show ?thesis by linarith
  next
    case 2
    then have x: "(of_int n / 1000 :: rat) = of_int v"
      by (simp flip: 2)
    from 2 assms have "\<bar>v\<bar> < 2 ^ 53"
      by (simp add: abs_mult flip: 2)
    then show ?thesis
      by (simp add: x binary64_round_of_int)
  next
    case 3
    then have "n + 1 \<le> 1000 * v" by simp
    then have "(of_int (n + 1) :: rat) \<le> of_int (1000 * v)"
      by (simp only: of_int_le_iff)
    then have "(of_int n / 1000 :: rat) + 1 / 1000 \<le> of_int v"
      by simp
    with near show ?thesis by linarith
  qed
qed

lemma py_truediv_1000:
  assumes "\<bar>n\<bar> < 2 ^ 53"
  shows "py_truediv n 1000 = Inr (binary64_round (of_int n / 1000))"
proof -
  have "\<bar>(of_int n / 1000 :: rat)\<bar> < 2 ^ 53"
    using assms by (simp flip: of_int_abs)
  with binary64_round_near [OF assms]
  have "\<bar>binary64_round (of_int n / 1000)\<bar> < 2 ^ 53 + 1"
    by linarith
  also have "\<dots> < (2::rat) ^ 1024"
    by simp
  finally show ?thesis
    by (simp add: py_truediv_def Let_def)
qed

lemma serialize_example: "length (serialize dust_example_txout) = 9"
  by (simp add: serialize_def le_bytes_def ser_compact_size_def dust_example_txout_def)

lemma nValue_example: "sint (nValue dust_example_txout) = 17592186044420"
  by (simp add: dust_example_txout_def)

lemma round_example: "binary64_round (17592186044420001 / 1000) = 17592186044420"
  by code_simp

text \<open>
  C9, as the claim states it, fails where the float threshold differs from the exact
  quotient. For the 9-byte output worth 17592186044420 and a rate of 1954687338268889
  the exact threshold is 17592186044420.001, above the value, but the float nearest to
  it is 17592186044420.0, and is_dust returns False.
\<close>

theorem is_dust_counterexample:
  "is_dust dust_example_txout 1954687338268889 = Inr False \<and>
   (of_int (sint (nValue dust_example_txout)) :: rat) <
     of_int (int (length (serialize dust_example_txout)) * 1954687338268889) / 1000"
  by (simp add: is_dust_def serialize_example py_truediv_def round_example nValue_example)

text \<open>
  C9, amended. When the product of the serialized length and the rate is below
  \<open>2\<^sup>5\<^sup>3\<close> in absolute value, is_dust raises nothing and returns true exactly when
  the output's value is strictly less than (serialized length * rate) / 1000; an output
  whose value equals that threshold is not dust.
\<close>

theorem is_dust_exact:
  "\<bar>int (length (serialize txout)) * dust_relay_fee\<bar> < 2 ^ 53 \<Longrightarrow>
   is_dust txout dust_relay_fee =
     Inr ((of_int (sint (nValue txout)) :: rat) <
          of_int (int (length (serialize txout)) * dust_relay_fee) / 1000)"
  by (simp only: is_dust_def Let_def py_truediv_1000 lt_binary64_round_iff sum.case)

theorem is_dust_exact_witness:
  "\<bar>int (length (serialize \<lparr>nValue = 26, scriptPubKey = []\<rparr>)) * DUST_RELAY_TX_FEE\<bar> < 2 ^ 53 \<and>
   is_dust \<lparr>nValue = 26, scriptPubKey = []\<rparr> DUST_RELAY_TX_FEE = Inr True \<and>
   is_dust \<lparr>nValue = 27, scriptPubKey = []\<rparr> DUST_RELAY_TX_FEE = Inr False"
  using is_dust_exact [of "\<lparr>nValue = 26, scriptPubKey = []\<rparr>" DUST_RELAY_TX_FEE]
    is_dust_exact [of "\<lparr>nValue = 27, scriptPubKey = []\<rparr>" DUST_RELAY_TX_FEE]
  by (simp add: serialize_def le_bytes_def ser_compact_size_def DUST_RELAY_TX_FEE_def)

end
